theory Spec2Isabelle
  imports Main
begin

section \<open>JavaScript array primitives used by the terminal\<close>

text \<open>
  The handlers of \<^verbatim>\<open>ScrollableTerminal.tsx\<close> build every new block sequence with
  \<^verbatim>\<open>slice\<close>, \<^verbatim>\<open>concat\<close>, \<^verbatim>\<open>findIndex\<close>, \<^verbatim>\<open>find\<close> and an indexed read.
  Indices are JavaScript numbers; they are modelled as integers, so that the index
  \<open>-1\<close> computed from an empty sequence (\<^verbatim>\<open>length - 1\<close>) is a value of the model.
\<close>

text \<open>The relative-index rule of \<^verbatim>\<open>Array.prototype.slice\<close>: a negative index counts
  from the end, and every index is clamped to the range of the array.\<close>

definition relIndex :: "int \<Rightarrow> nat \<Rightarrow> nat" where
  "relIndex k len = (if k < 0 then nat (max (int len + k) 0) else min (nat k) len)"

text \<open>\<^verbatim>\<open>xs.slice(start, stop)\<close>.\<close>

definition slice :: "'a list \<Rightarrow> int \<Rightarrow> int \<Rightarrow> 'a list" where
  "slice xs start stop =
     take (relIndex stop (length xs) - relIndex start (length xs))
          (drop (relIndex start (length xs)) xs)"

text \<open>\<^verbatim>\<open>xs.slice(start)\<close>.\<close>

definition sliceFrom :: "'a list \<Rightarrow> int \<Rightarrow> 'a list" where
  "sliceFrom xs start = drop (relIndex start (length xs)) xs"

text \<open>\<^verbatim>\<open>xs[i]\<close>: \<^verbatim>\<open>undefined\<close> (here \<open>None\<close>) outside the array.\<close>

definition at :: "'a list \<Rightarrow> int \<Rightarrow> 'a option" where
  "at xs i = (if 0 \<le> i \<and> i < int (length xs) then Some (xs ! nat i) else None)"

text \<open>\<^verbatim>\<open>xs.findIndex(p)\<close>: the first index whose element satisfies \<open>p\<close>, or \<open>-1\<close>.\<close>

fun findIndex :: "('a \<Rightarrow> bool) \<Rightarrow> 'a list \<Rightarrow> int" where
  "findIndex p [] = - 1"
| "findIndex p (x # xs) =
     (if p x then 0 else (if findIndex p xs < 0 then - 1 else findIndex p xs + 1))"

text \<open>\<^verbatim>\<open>xs.find(p)\<close> is \<^const>\<open>List.find\<close>: the first element satisfying \<open>p\<close>, or
  \<^verbatim>\<open>undefined\<close> (\<open>None\<close>).\<close>

section \<open>The block model\<close>

text \<open>
  \<^verbatim>\<open>ScalarResponse\<close> is declared in \<^verbatim>\<open>@kui-shell/core\<close>. The terminal never looks inside
  a response: it hands it to \<^verbatim>\<open>isWatchable\<close> and stores it, or stores the boolean
  \<^verbatim>\<open>true\<close> in its place. A response is therefore a boolean or an otherwise opaque value,
  named by a string.
\<close>

datatype ScalarResponse = BooleanResponse bool | ValueResponse string

text \<open>
  Modelled from the spec: the module \<^verbatim>\<open>./Block/BlockModel\<close>, which the terminal imports
  (\<^verbatim>\<open>Active, Finished, Cancelled, Processing, isActive, isProcessing, BlockModel\<close>), is not
  among the sources. The spec (Data Model, Block Model) gives a block as a tagged variant
  with four mutually exclusive states: Active (captured input text), Processing (command
  text and execution identifier), Finished (response or boolean ok, and a cancelled flag)
  and Cancelled, each transition constructor consuming the previous block. What a
  constructor keeps of the previous block is not specified, so the block built by a
  constructor is the constructor applied to its arguments.
\<close>

datatype BlockModel =
    ActiveBlock string
  | ProcessingBlock BlockModel string string
  | FinishedBlock BlockModel ScalarResponse bool
  | CancelledBlock BlockModel

text \<open>Modelled from the spec: the predicate \<^verbatim>\<open>isActive\<close> of the absent block model.\<close>

fun isActive :: "BlockModel \<Rightarrow> bool" where
  "isActive (ActiveBlock v) = True"
| "isActive b = False"

text \<open>Modelled from the spec: the predicate \<^verbatim>\<open>isProcessing\<close> of the absent block model.\<close>

fun isProcessing :: "BlockModel \<Rightarrow> bool" where
  "isProcessing (ProcessingBlock b c u) = True"
| "isProcessing b = False"

text \<open>Modelled from the spec: the field \<^verbatim>\<open>execUUID\<close> of a block, present in the Processing
  state only (``assigned at start-of-execution, absent before execution begins'').\<close>

fun execUUID :: "BlockModel \<Rightarrow> string option" where
  "execUUID (ProcessingBlock b c u) = Some u"
| "execUUID b = None"

text \<open>Modelled from the spec: the command text carried by a Processing block.\<close>

fun command :: "BlockModel \<Rightarrow> string option" where
  "command (ProcessingBlock b c u) = Some c"
| "command b = None"

text \<open>A JavaScript exception value.\<close>

datatype exn = TypeError | Error string

text \<open>
  The terminal wraps the construction of a replacement sequence in \<^verbatim>\<open>try/catch\<close>, so a
  constructor of the block model is a call that may raise. The handlers below take the
  four constructors as a parameter: each returns a block (\<open>Inr\<close>) or raises (\<open>Inl\<close>). The
  previous block handed to \<^verbatim>\<open>Processing\<close> and \<^verbatim>\<open>Cancelled\<close> is read by index and may be
  \<^verbatim>\<open>undefined\<close>.
\<close>

record BlockModelOps =
  mkActive :: "string option \<Rightarrow> exn + BlockModel"
  mkProcessing :: "BlockModel option \<Rightarrow> string \<Rightarrow> string \<Rightarrow> exn + BlockModel"
  mkFinished :: "BlockModel \<Rightarrow> ScalarResponse \<Rightarrow> bool \<Rightarrow> exn + BlockModel"
  mkCancelled :: "BlockModel option \<Rightarrow> exn + BlockModel"

text \<open>Modelled from the spec: \<^verbatim>\<open>Active(capturedText?)\<close>, ``new block in Active state, input
  pre-filled with capturedText if given, else empty''.\<close>

definition Active :: "string option \<Rightarrow> exn + BlockModel" where
  "Active initialValue = Inr (ActiveBlock (case initialValue of None \<Rightarrow> [] | Some v \<Rightarrow> v))"

text \<open>Modelled from the spec: \<^verbatim>\<open>Processing(previousBlock, commandText, execId)\<close>. The spec
  gives the transition for a previous block only; on \<^verbatim>\<open>undefined\<close> the constructor has no
  block whose fields it could retain, and is taken to raise, as a field read of
  \<^verbatim>\<open>undefined\<close> does.\<close>

definition Processing :: "BlockModel option \<Rightarrow> string \<Rightarrow> string \<Rightarrow> exn + BlockModel" where
  "Processing block c u =
     (case block of None \<Rightarrow> Inl TypeError | Some b \<Rightarrow> Inr (ProcessingBlock b c u))"

text \<open>Modelled from the spec: \<^verbatim>\<open>Finished(previousBlock, responseOrOk, cancelled)\<close>.\<close>

definition Finished :: "BlockModel \<Rightarrow> ScalarResponse \<Rightarrow> bool \<Rightarrow> exn + BlockModel" where
  "Finished block r c = Inr (FinishedBlock block r c)"

text \<open>Modelled from the spec: \<^verbatim>\<open>Cancelled(previousBlock)\<close>; on \<^verbatim>\<open>undefined\<close> as
  \<^const>\<open>Processing\<close>.\<close>

definition Cancelled :: "BlockModel option \<Rightarrow> exn + BlockModel" where
  "Cancelled block = (case block of None \<Rightarrow> Inl TypeError | Some b \<Rightarrow> Inr (CancelledBlock b))"

definition BlockModel_spec :: BlockModelOps where
  "BlockModel_spec =
     \<lparr>mkActive = Active, mkProcessing = Processing, mkFinished = Finished,
      mkCancelled = Cancelled\<rparr>"

section \<open>The terminal: state, props, events and effects\<close>

text \<open>\<^verbatim>\<open>interface State { blocks: BlockModel[] }\<close>\<close>

record State =
  blocks :: "BlockModel list"

text \<open>
  The props the handlers read. A callback is an effect of the handler that calls it, so
  \<open>onClear\<close> records only whether the optional callback was supplied;
  \<open>enableWatchPane\<close> is \<^verbatim>\<open>props.config.enableWatchPane\<close>.
\<close>

record Props =
  onClear :: bool
  sidecarIsVisible :: bool
  enableWatchPane :: bool

text \<open>The two functions of \<^verbatim>\<open>@kui-shell/core\<close> the handlers call, taken as parameters.\<close>

record Core =
  isPopup :: bool
  isWatchable :: "ScalarResponse \<Rightarrow> bool"

text \<open>What a handler does besides updating the state.\<close>

datatype effect = CallOnClear | CallCloseSidecar | ConsoleError string

text \<open>The payload of \<^verbatim>\<open>/command/start/fromuser\<close>. The handlers test \<^verbatim>\<open>echo === false\<close>, so an
  absent \<open>echo\<close> (\<open>None\<close>) is not the same as \<open>false\<close>.\<close>

record ExecStart =
  start_execUUID :: string
  start_command :: string
  start_echo :: "bool option"

text \<open>The first argument of \<^verbatim>\<open>/command/complete/fromuser\<close>; \<open>evaluatorAlwaysViewIn\<close> and
  \<open>execAlwaysViewIn\<close> are \<^verbatim>\<open>evaluatorOptions.alwaysViewIn\<close> and
  \<^verbatim>\<open>execOptions.alwaysViewIn\<close>.\<close>

record ExecEnd =
  response :: ScalarResponse
  cancelled :: bool
  echo :: "bool option"
  evaluatorAlwaysViewIn :: "string option"
  execAlwaysViewIn :: "string option"

text \<open>
  The result of running a handler on a state: the state afterwards, the effects in the
  order they happened, and the exception that left the handler, if one did.
\<close>

record outcome =
  next_state :: State
  effects :: "effect list"
  thrown :: "exn option"

text \<open>
  \<^verbatim>\<open>this.setState(updater)\<close>: the updater is applied to the current state. It returns a
  new state, returns \<^verbatim>\<open>undefined\<close> (\<open>None\<close>: React keeps the state), or raises; an
  exception of the updater is not caught by the handler, and the state is kept. The
  effects are those of the updater.
\<close>

definition setState :: "(State \<Rightarrow> (exn + State option) \<times> effect list) \<Rightarrow> State \<Rightarrow> outcome" where
  "setState updater s =
     (case updater s of
        (Inl e, fx) \<Rightarrow> \<lparr>next_state = s, effects = fx, thrown = Some e\<rparr>
      | (Inr None, fx) \<Rightarrow> \<lparr>next_state = s, effects = fx, thrown = None\<rparr>
      | (Inr (Some s'), fx) \<Rightarrow> \<lparr>next_state = s', effects = fx, thrown = None\<rparr>)"

text \<open>Effects that happened in the handler before the state update.\<close>

definition after_effects :: "effect list \<Rightarrow> outcome \<Rightarrow> outcome" where
  "after_effects fx r = r\<lparr>effects := fx @ effects r\<rparr>"

text \<open>A handler that returns at once.\<close>

definition unchanged :: "State \<Rightarrow> outcome" where
  "unchanged s = \<lparr>next_state = s, effects = [], thrown = None\<rparr>"

section \<open>The handlers of \<^verbatim>\<open>ScrollableTerminal\<close>\<close>

text \<open>The constructor: \<^verbatim>\<open>this.state = { blocks: [Active()] }\<close>.\<close>

definition initialState :: "BlockModelOps \<Rightarrow> exn + State" where
  "initialState bm =
     (case mkActive bm None of Inl e \<Rightarrow> Inl e | Inr a \<Rightarrow> Inr \<lparr>blocks = [a]\<rparr>)"

text \<open>
  \<^verbatim>\<open>clear()\<close>. The field \<^verbatim>\<open>_activeBlock\<close> is a reference to the rendered component of the
  active block, set by \<^verbatim>\<open>render\<close>; the argument \<open>activeBlock\<close> is \<open>None\<close> when the
  reference is unset and \<open>Some v\<close> when it is set and its \<^verbatim>\<open>inputValue()\<close> is \<open>v\<close>.
\<close>

definition clear :: "BlockModelOps \<Rightarrow> Props \<Rightarrow> string option \<Rightarrow> State \<Rightarrow> outcome" where
  "clear bm props activeBlock s =
     after_effects (if onClear props then [CallOnClear] else [])
       (setState
          (\<lambda>curState.
             let capturedValue = (case activeBlock of Some v \<Rightarrow> v | None \<Rightarrow> [])
             in (case mkActive bm (Some capturedValue) of
                   Inl e \<Rightarrow> Inl e
                 | Inr a \<Rightarrow> Inr (Some \<lparr>blocks = [a]\<rparr>), []))
          s)"

text \<open>\<^verbatim>\<open>onExecStart({ execUUID, command, echo })\<close>.\<close>

definition onExecStart :: "BlockModelOps \<Rightarrow> Core \<Rightarrow> Props \<Rightarrow> ExecStart \<Rightarrow> State \<Rightarrow> outcome" where
  "onExecStart bm core props ev s =
     (if start_echo ev = Some False then unchanged s
      else
        after_effects (if isPopup core \<and> sidecarIsVisible props then [CallCloseSidecar] else [])
          (setState
             (\<lambda>curState.
                let idx = int (length (blocks curState)) - 1
                in (case mkProcessing bm (at (blocks curState) idx)
                           (start_command ev) (start_execUUID ev) of
                      Inl e \<Rightarrow> Inl e
                    | Inr p \<Rightarrow> Inr (Some \<lparr>blocks = slice (blocks curState) 0 idx @ [p]\<rparr>), []))
             s))"

text \<open>The policy \<^verbatim>\<open>showInTerminal\<close> computed by \<^verbatim>\<open>onExecEnd\<close>.\<close>

definition showInTerminal :: "Core \<Rightarrow> Props \<Rightarrow> ExecEnd \<Rightarrow> bool" where
  "showInTerminal core props ev =
     (\<not> enableWatchPane props \<or>
      \<not> isWatchable core (response ev) \<or>
      (isWatchable core (response ev) \<and>
         (evaluatorAlwaysViewIn ev = Some ''Terminal'' \<or> execAlwaysViewIn ev = Some ''Terminal'')))"

text \<open>The value \<^verbatim>\<open>onExecEnd\<close> hands to \<^verbatim>\<open>Finished\<close>:
  \<^verbatim>\<open>responseType === 'ScalarResponse' && showInTerminal ? response : true\<close>.\<close>

definition responseOrOk :: "Core \<Rightarrow> Props \<Rightarrow> ExecEnd \<Rightarrow> string \<Rightarrow> ScalarResponse" where
  "responseOrOk core props ev responseType =
     (if responseType = ''ScalarResponse'' \<and> showInTerminal core props ev
      then response ev else BooleanResponse True)"

text \<open>The body of the \<^verbatim>\<open>try\<close> block of \<^verbatim>\<open>onExecEnd\<close>: the replacement sequence, or the
  exception raised on the way (\<^verbatim>\<open>Finished\<close> is evaluated before \<^verbatim>\<open>Active\<close>).\<close>

definition finishedBlocks ::
  "BlockModelOps \<Rightarrow> BlockModel list \<Rightarrow> int \<Rightarrow> BlockModel \<Rightarrow> ScalarResponse \<Rightarrow> bool
     \<Rightarrow> exn + BlockModel list" where
  "finishedBlocks bm bs inProcessIdx inProcess r c =
     (case mkFinished bm inProcess r c of
        Inl e \<Rightarrow> Inl e
      | Inr f \<Rightarrow>
          (case mkActive bm None of
             Inl e \<Rightarrow> Inl e
           | Inr a \<Rightarrow> Inr (slice bs 0 inProcessIdx @ [f] @ sliceFrom bs (inProcessIdx + 1) @ [a])))"

text \<open>The branch \<^verbatim>\<open>else if (cancelled)\<close> of \<^verbatim>\<open>onExecEnd\<close>, which has no \<^verbatim>\<open>try\<close>.\<close>

definition cancelledBlocks :: "BlockModelOps \<Rightarrow> BlockModel list \<Rightarrow> exn + BlockModel list" where
  "cancelledBlocks bm bs =
     (let inProcessIdx = int (length bs) - 1; inProcess = at bs inProcessIdx
      in (case mkCancelled bm inProcess of
            Inl e \<Rightarrow> Inl e
          | Inr c \<Rightarrow>
              (case mkActive bm None of
                 Inl e \<Rightarrow> Inl e
               | Inr a \<Rightarrow> Inr (slice bs 0 inProcessIdx @ [c] @ [a]))))"

text \<open>
  The updater of \<^verbatim>\<open>onExecEnd\<close>. \<^verbatim>\<open>findIndex\<close> returns an index of the array or \<open>-1\<close>, so
  the read \<^verbatim>\<open>curState.blocks[inProcessIdx]\<close> is never \<^verbatim>\<open>undefined\<close>; the model raises there.
\<close>

definition onExecEnd_updater ::
  "BlockModelOps \<Rightarrow> Core \<Rightarrow> Props \<Rightarrow> ExecEnd \<Rightarrow> string \<Rightarrow> string \<Rightarrow> State
     \<Rightarrow> (exn + State option) \<times> effect list" where
  "onExecEnd_updater bm core props ev u responseType curState =
     (let inProcessIdx =
            findIndex (\<lambda>b. isProcessing b \<and> execUUID b = Some u) (blocks curState)
      in if inProcessIdx \<ge> 0 then
           (case at (blocks curState) inProcessIdx of
              None \<Rightarrow> (Inl TypeError, [])
            | Some inProcess \<Rightarrow>
                if isProcessing inProcess then
                  (case finishedBlocks bm (blocks curState) inProcessIdx inProcess
                          (responseOrOk core props ev responseType) (cancelled ev) of
                     Inr bs \<Rightarrow> (Inr (Some \<lparr>blocks = bs\<rparr>), [])
                   | Inl err \<Rightarrow> (Inr None, [ConsoleError ''error updating state'']))
                else
                  (Inr None,
                   [ConsoleError
                      ''invalid state: got a command completion event for a block that is not processing'']))
         else if cancelled ev then
           (case cancelledBlocks bm (blocks curState) of
              Inl e \<Rightarrow> (Inl e, [])
            | Inr bs \<Rightarrow> (Inr (Some \<lparr>blocks = bs\<rparr>), []))
         else
           (Inr None,
            [ConsoleError
               ''invalid state: got a command completion event, but never got command start event'']))"

text \<open>\<^verbatim>\<open>onExecEnd({ response, cancelled, echo, evaluatorOptions, execOptions }, execUUID,
  responseType)\<close>.\<close>

definition onExecEnd ::
  "BlockModelOps \<Rightarrow> Core \<Rightarrow> Props \<Rightarrow> ExecEnd \<Rightarrow> string \<Rightarrow> string \<Rightarrow> State \<Rightarrow> outcome" where
  "onExecEnd bm core props ev u responseType s =
     (if echo ev = Some False then unchanged s
      else setState (onExecEnd_updater bm core props ev u responseType) s)"

text \<open>\<^verbatim>\<open>willRemoveBlock(idx)\<close>. The test for an active block reads \<^verbatim>\<open>curState.blocks\<close>, the
  sequence before the removal.\<close>

definition willRemoveBlock :: "BlockModelOps \<Rightarrow> int \<Rightarrow> State \<Rightarrow> outcome" where
  "willRemoveBlock bm idx s =
     setState
       (\<lambda>curState.
          (case (case find isActive (blocks curState) of
                   Some b \<Rightarrow> Inr []
                 | None \<Rightarrow> (case mkActive bm None of Inl e \<Rightarrow> Inl e | Inr a \<Rightarrow> Inr [a])) of
             Inl e \<Rightarrow> Inl e
           | Inr extra \<Rightarrow>
               Inr (Some \<lparr>blocks = slice (blocks curState) 0 idx
                                  @ sliceFrom (blocks curState) (idx + 1) @ extra\<rparr>),
           []))
       s"

section \<open>Event sequences\<close>

text \<open>The three events the terminal subscribes to. A clear event carries what
  \<^verbatim>\<open>_activeBlock\<close> refers to when the handler runs.\<close>

datatype event =
    Start ExecStart
  | Complete ExecEnd string string
  | Clear "string option"

fun dispatch :: "BlockModelOps \<Rightarrow> Core \<Rightarrow> Props \<Rightarrow> event \<Rightarrow> State \<Rightarrow> outcome" where
  "dispatch bm core props (Start ev) s = onExecStart bm core props ev s"
| "dispatch bm core props (Complete ev u responseType) s = onExecEnd bm core props ev u responseType s"
| "dispatch bm core props (Clear activeBlock) s = clear bm props activeBlock s"

text \<open>The outcomes of the handlers for a sequence of events, each handler running to
  completion on the state the previous one left.\<close>

fun outcomes :: "BlockModelOps \<Rightarrow> Core \<Rightarrow> Props \<Rightarrow> State \<Rightarrow> event list \<Rightarrow> outcome list" where
  "outcomes bm core props s [] = []"
| "outcomes bm core props s (e # es) =
     dispatch bm core props e s # outcomes bm core props (next_state (dispatch bm core props e s)) es"

text \<open>The number of blocks in Active state.\<close>

definition activeCount :: "State \<Rightarrow> nat" where
  "activeCount s = length (filter isActive (blocks s))"

text \<open>
  A block that is neither Active nor Processing: it is Finished or Cancelled.
\<close>

definition settled :: "BlockModel \<Rightarrow> bool" where
  "settled b = (\<not> isActive b \<and> \<not> isProcessing b)"

text \<open>
  Invariant A of the spec, as the handlers keep it: the sequence is not empty, every block
  before the last is settled, and the last block is Active or Processing.
\<close>

definition invariantA :: "State \<Rightarrow> bool" where
  "invariantA s =
     (blocks s \<noteq> [] \<and> list_all settled (butlast (blocks s)) \<and>
      (isActive (last (blocks s)) \<or> isProcessing (last (blocks s))))"

section \<open>Sample inputs\<close>

text \<open>A core outside popup mode in which no response is watchable; props with an
  \<^verbatim>\<open>onClear\<close> callback and the watch pane disabled; echoing events.\<close>

definition plainCore :: Core where
  "plainCore = \<lparr>isPopup = False, isWatchable = (\<lambda>r. False)\<rparr>"

definition plainProps :: Props where
  "plainProps = \<lparr>onClear = True, sidecarIsVisible = False, enableWatchPane = False\<rparr>"

definition completion :: "bool \<Rightarrow> ExecEnd" where
  "completion c =
     \<lparr>response = ValueResponse ''ok'', cancelled = c, echo = Some True,
      evaluatorAlwaysViewIn = None, execAlwaysViewIn = None\<rparr>"

definition start :: "string \<Rightarrow> string \<Rightarrow> ExecStart" where
  "start u c = \<lparr>start_execUUID = u, start_command = c, start_echo = Some True\<rparr>"

text \<open>A core in which every response is watchable, and props with the watch pane enabled.\<close>

definition watchCore :: Core where
  "watchCore = \<lparr>isPopup = False, isWatchable = (\<lambda>r. True)\<rparr>"

definition watchProps :: Props where
  "watchProps = \<lparr>onClear = False, sidecarIsVisible = False, enableWatchPane = True\<rparr>"

text \<open>Block models one of whose constructors raises.\<close>

definition failingCancelled :: BlockModelOps where
  "failingCancelled = BlockModel_spec\<lparr>mkCancelled := \<lambda>b. Inl (Error ''Cancelled failed'')\<rparr>"

definition failingFinished :: BlockModelOps where
  "failingFinished = BlockModel_spec\<lparr>mkFinished := \<lambda>b r c. Inl (Error ''Finished failed'')\<rparr>"

section \<open>Facts about the array primitives\<close>

lemmas spec_ops = BlockModel_spec_def Active_def Processing_def Finished_def Cancelled_def

lemmas samples = plainCore_def plainProps_def completion_def start_def watchCore_def
  watchProps_def

lemma slice_prefix: "0 \<le> k \<Longrightarrow> slice xs 0 k = take (nat k) xs"
  by (simp add: slice_def relIndex_def min_def)

lemma slice_butlast: "slice xs 0 (int (length xs) - 1) = butlast xs"
  by (cases "xs = []") (simp_all add: slice_def relIndex_def butlast_conv_take nat_diff_distrib')

lemma sliceFrom_drop: "0 \<le> k \<Longrightarrow> sliceFrom xs k = drop (nat k) xs"
  by (simp add: sliceFrom_def relIndex_def min_def)

lemma at_nth: "i < length xs \<Longrightarrow> at xs (int i) = Some (xs ! i)"
  by (simp add: at_def)

lemma at_last: "xs \<noteq> [] \<Longrightarrow> at xs (int (length xs) - 1) = Some (last xs)"
  by (simp add: at_def last_conv_nth nat_diff_distrib' int_ops(6))

lemma findIndex_ge: "- 1 \<le> findIndex p xs"
  by (induction xs) auto

lemma findIndex_none: "(findIndex p xs < 0) = (\<forall>x \<in> set xs. \<not> p x)"
  using findIndex_ge [of p] by (induction xs) auto

lemma findIndex_first:
  "j < length xs \<Longrightarrow> p (xs ! j) \<Longrightarrow> (\<forall>k < j. \<not> p (xs ! k)) \<Longrightarrow> findIndex p xs = int j"
proof (induction xs arbitrary: j)
  case Nil
  then show ?case by simp
next
  case (Cons x xs)
  show ?case
  proof (cases j)
    case 0
    with Cons.prems show ?thesis by simp
  next
    case (Suc j')
    with Cons.prems have "\<not> p x" by auto
    moreover from Suc Cons.prems have "findIndex p xs = int j'"
      by (intro Cons.IH) auto
    ultimately show ?thesis using Suc by simp
  qed
qed

lemma findIndex_found:
  "0 \<le> findIndex p xs \<Longrightarrow>
     nat (findIndex p xs) < length xs \<and> p (xs ! nat (findIndex p xs)) \<and>
     (\<forall>k < nat (findIndex p xs). \<not> p (xs ! k))"
proof (induction xs)
  case Nil
  then show ?case by simp
next
  case (Cons x xs)
  show ?case
  proof (cases "p x")
    case True
    then show ?thesis by simp
  next
    case False
    with Cons.prems have ge: "0 \<le> findIndex p xs" by (simp split: if_splits)
    from Cons.IH [OF ge] False ge show ?thesis
      by (auto simp: nat_add_distrib nth_Cons split: nat.splits)
  qed
qed

section \<open>The updater of \<^verbatim>\<open>onExecEnd\<close>, branch by branch\<close>

text \<open>The \<^verbatim>\<open>try/catch\<close> of the branch that found the block: whatever the constructors do,
  the updater returns a new sequence, or reports and returns nothing.\<close>

lemma updater_try_catch:
  assumes "findIndex (\<lambda>b. isProcessing b \<and> execUUID b = Some u) (blocks s) = int j"
  shows "onExecEnd_updater bm core props ev u responseType s =
     (case finishedBlocks bm (blocks s) (int j) (blocks s ! j)
             (responseOrOk core props ev responseType) (cancelled ev) of
        Inr bs \<Rightarrow> (Inr (Some \<lparr>blocks = bs\<rparr>), [])
      | Inl err \<Rightarrow> (Inr None, [ConsoleError ''error updating state'']))"
proof -
  let ?p = "\<lambda>b. isProcessing b \<and> execUUID b = Some u"
  have found: "j < length (blocks s) \<and> ?p (blocks s ! j)"
    using findIndex_found [of ?p "blocks s"] assms by simp
  then have "at (blocks s) (int j) = Some (blocks s ! j)"
    by (simp add: at_nth)
  then show ?thesis
    using assms found by (simp add: onExecEnd_updater_def split: sum.splits)
qed

lemma updater_found:
  assumes "j < length bs"
    and "isProcessing (bs ! j)" and "execUUID (bs ! j) = Some u"
    and "\<forall>k<j. \<not> (isProcessing (bs ! k) \<and> execUUID (bs ! k) = Some u)"
  shows "onExecEnd_updater BlockModel_spec core props ev u responseType \<lparr>blocks = bs\<rparr> =
     (Inr (Some \<lparr>blocks =
         bs[j := FinishedBlock (bs ! j) (responseOrOk core props ev responseType) (cancelled ev)]
         @ [ActiveBlock []]\<rparr>), [])"
proof -
  have idx: "findIndex (\<lambda>b. isProcessing b \<and> execUUID b = Some u) bs = int j"
    using assms by (intro findIndex_first) auto
  have "finishedBlocks BlockModel_spec bs (int j) (bs ! j)
          (responseOrOk core props ev responseType) (cancelled ev) =
        Inr (bs[j := FinishedBlock (bs ! j) (responseOrOk core props ev responseType)
                       (cancelled ev)] @ [ActiveBlock []])"
    using assms(1)
    by (simp add: finishedBlocks_def slice_prefix sliceFrom_drop spec_ops nat_add_distrib
          upd_conv_take_nth_drop)
  then show ?thesis
    using updater_try_catch [of u "\<lparr>blocks = bs\<rparr>" j BlockModel_spec core props ev responseType]
      idx
    by simp
qed

lemma updater_inert:
  assumes "\<not> cancelled ev"
    and "\<forall>b \<in> set (blocks s). \<not> (isProcessing b \<and> execUUID b = Some u)"
  shows "onExecEnd_updater bm core props ev u responseType s =
     (Inr None,
      [ConsoleError
         ''invalid state: got a command completion event, but never got command start event''])"
proof -
  have "findIndex (\<lambda>b. isProcessing b \<and> execUUID b = Some u) (blocks s) < 0"
    using assms(2) by (simp add: findIndex_none)
  then show ?thesis
    using assms(1) by (simp add: onExecEnd_updater_def)
qed

lemma updater_bare_cancel:
  assumes "cancelled ev"
    and "\<forall>b \<in> set (blocks s). \<not> (isProcessing b \<and> execUUID b = Some u)"
  shows "onExecEnd_updater bm core props ev u responseType s =
     (case cancelledBlocks bm (blocks s) of
        Inl e \<Rightarrow> (Inl e, [])
      | Inr bs \<Rightarrow> (Inr (Some \<lparr>blocks = bs\<rparr>), []))"
proof -
  have "findIndex (\<lambda>b. isProcessing b \<and> execUUID b = Some u) (blocks s) < 0"
    using assms(2) by (simp add: findIndex_none)
  then show ?thesis
    using assms(1) by (simp add: onExecEnd_updater_def)
qed

lemma cancelledBlocks_spec:
  "bs \<noteq> [] \<Longrightarrow>
     cancelledBlocks BlockModel_spec bs =
       Inr (butlast bs @ [CancelledBlock (last bs), ActiveBlock []])"
  by (simp add: cancelledBlocks_def at_last slice_butlast spec_ops)

section \<open>\<^verbatim>\<open>onExecStart\<close> and \<^verbatim>\<open>willRemoveBlock\<close> on the specified block model\<close>

lemma onExecStart_last:
  assumes "start_echo ev \<noteq> Some False" and "bs \<noteq> []"
  shows "onExecStart BlockModel_spec core props ev \<lparr>blocks = bs\<rparr> =
     \<lparr>next_state =
        \<lparr>blocks = butlast bs @ [ProcessingBlock (last bs) (start_command ev) (start_execUUID ev)]\<rparr>,
      effects = (if isPopup core \<and> sidecarIsVisible props then [CallCloseSidecar] else []),
      thrown = None\<rparr>"
  using assms
  by (simp add: onExecStart_def after_effects_def setState_def at_last slice_butlast spec_ops
        Let_def)

text \<open>For an index of the sequence, \<^verbatim>\<open>willRemoveBlock\<close> removes that block and appends an
  Active block exactly when the sequence \<^emph>\<open>before\<close> the removal had none.\<close>

lemma willRemoveBlock_in_range:
  "idx < length bs \<Longrightarrow>
   willRemoveBlock BlockModel_spec (int idx) \<lparr>blocks = bs\<rparr> =
     \<lparr>next_state =
        \<lparr>blocks = take idx bs @ drop (Suc idx) bs
                   @ (if \<exists>b \<in> set bs. isActive b then [] else [ActiveBlock []])\<rparr>,
      effects = [], thrown = None\<rparr>"
  by (auto simp: willRemoveBlock_def setState_def slice_prefix sliceFrom_drop spec_ops
        nat_add_distrib find_None_iff split: option.splits)

section \<open>Removing a block\<close>

text \<open>
  Claim C1. \<^verbatim>\<open>removeBlock(i)\<close> removes the block at position \<open>i\<close> and, if after the removal
  no block of the resulting sequence is Active, appends a new \<^verbatim>\<open>Active()\<close> block; in
  particular, removing the only Active block yields a sequence with exactly one Active
  block, appended at the end.

  The code decides whether to append by looking for an Active block in the sequence
  \<^emph>\<open>before\<close> the removal. Removing the only Active block of the fresh terminal therefore
  leaves the empty sequence: no block is appended, and no block is Active.
\<close>

theorem willRemoveBlock_only_active_leaves_none:
  "willRemoveBlock BlockModel_spec 0 \<lparr>blocks = [ActiveBlock []]\<rparr> =
     \<lparr>next_state = \<lparr>blocks = []\<rparr>, effects = [], thrown = None\<rparr>
   \<and> activeCount (next_state (willRemoveBlock BlockModel_spec 0 \<lparr>blocks = [ActiveBlock []]\<rparr>)) = 0
   \<and> willRemoveBlock BlockModel_spec 1
        \<lparr>blocks = [FinishedBlock (ProcessingBlock (ActiveBlock []) ''ls'' ''u1'')
                     (BooleanResponse True) False,
                   ActiveBlock []]\<rparr> =
     \<lparr>next_state =
        \<lparr>blocks = [FinishedBlock (ProcessingBlock (ActiveBlock []) ''ls'' ''u1'')
                     (BooleanResponse True) False]\<rparr>,
      effects = [], thrown = None\<rparr>"
  by (simp add: willRemoveBlock_def setState_def slice_def sliceFrom_def relIndex_def
        activeCount_def)

section \<open>Completion events\<close>

text \<open>
  Claim C3. In a sequence holding two Processing blocks with distinct execution
  identifiers \<open>A\<close> and \<open>B\<close>, at any positions \<open>i\<close> and \<open>j\<close>, an echoing completion event
  for \<open>B\<close> turns the block with identifier \<open>B\<close> (the first such block, should the
  identifier occur more than once) into Finished, leaves every other block as it is, the
  block of \<open>A\<close> among them, and appends a fresh Active block: the result is the sequence
  updated at position \<open>j\<close>, followed by \<^verbatim>\<open>Active()\<close>. The block is found by its identifier,
  whatever its position.
\<close>

theorem onExecEnd_matches_by_execUUID:
  assumes "echo ev \<noteq> Some False"
    and "i < length bs" and "bs ! i = ProcessingBlock pa ca A"
    and "j < length bs" and "bs ! j = ProcessingBlock pb cb B"
    and "A \<noteq> B"
    and "\<forall>k<j. \<not> (isProcessing (bs ! k) \<and> execUUID (bs ! k) = Some B)"
  shows "onExecEnd BlockModel_spec core props ev B responseType \<lparr>blocks = bs\<rparr> =
     \<lparr>next_state =
        \<lparr>blocks = bs[j := FinishedBlock (bs ! j) (responseOrOk core props ev responseType)
                             (cancelled ev)] @ [ActiveBlock []]\<rparr>,
      effects = [], thrown = None\<rparr>
    \<and> blocks (next_state
         (onExecEnd BlockModel_spec core props ev B responseType \<lparr>blocks = bs\<rparr>)) ! i =
       ProcessingBlock pa ca A"
proof -
  have ne: "i \<noteq> j" using assms(3,5,6) by auto
  have "onExecEnd_updater BlockModel_spec core props ev B responseType \<lparr>blocks = bs\<rparr> =
     (Inr (Some \<lparr>blocks =
         bs[j := FinishedBlock (bs ! j) (responseOrOk core props ev responseType) (cancelled ev)]
         @ [ActiveBlock []]\<rparr>), [])"
    using assms(4,5,7) by (intro updater_found) simp_all
  then have run: "onExecEnd BlockModel_spec core props ev B responseType \<lparr>blocks = bs\<rparr> =
     \<lparr>next_state =
        \<lparr>blocks = bs[j := FinishedBlock (bs ! j) (responseOrOk core props ev responseType)
                             (cancelled ev)] @ [ActiveBlock []]\<rparr>,
      effects = [], thrown = None\<rparr>"
    using assms(1) by (simp add: onExecEnd_def setState_def)
  show ?thesis
    unfolding run using ne assms(2,3) by (simp add: nth_append)
qed

theorem onExecEnd_matches_by_execUUID_witness:
  "onExecEnd BlockModel_spec plainCore plainProps (completion False) ''B'' ''ScalarResponse''
     \<lparr>blocks = [ProcessingBlock (ActiveBlock []) ''ls'' ''B'',
                ProcessingBlock (ActiveBlock []) ''sleep'' ''A'']\<rparr> =
     \<lparr>next_state =
        \<lparr>blocks = [FinishedBlock (ProcessingBlock (ActiveBlock []) ''ls'' ''B'')
                     (ValueResponse ''ok'') False,
                   ProcessingBlock (ActiveBlock []) ''sleep'' ''A'',
                   ActiveBlock []]\<rparr>,
      effects = [], thrown = None\<rparr>
   \<and> onExecEnd BlockModel_spec plainCore plainProps (completion False) ''B'' ''ScalarResponse''
     \<lparr>blocks = [ProcessingBlock (ActiveBlock []) ''sleep'' ''A'',
                ProcessingBlock (ActiveBlock []) ''ls'' ''B'']\<rparr> =
     \<lparr>next_state =
        \<lparr>blocks = [ProcessingBlock (ActiveBlock []) ''sleep'' ''A'',
                   FinishedBlock (ProcessingBlock (ActiveBlock []) ''ls'' ''B'')
                     (ValueResponse ''ok'') False,
                   ActiveBlock []]\<rparr>,
      effects = [], thrown = None\<rparr>"
proof -
  let ?a = "ProcessingBlock (ActiveBlock []) ''sleep'' ''A''"
  let ?b = "ProcessingBlock (ActiveBlock []) ''ls'' ''B''"
  have echo: "echo (completion False) \<noteq> Some False" by (simp add: completion_def)
  have r: "responseOrOk plainCore plainProps (completion False) ''ScalarResponse'' =
             ValueResponse ''ok''"
    by (simp add: responseOrOk_def showInTerminal_def samples)
  have c: "cancelled (completion False) = False" by (simp add: completion_def)
  have first: "onExecEnd BlockModel_spec plainCore plainProps (completion False) ''B''
      ''ScalarResponse'' \<lparr>blocks = [?b, ?a]\<rparr> =
     \<lparr>next_state = \<lparr>blocks = [?b, ?a][0 := FinishedBlock ([?b, ?a] ! 0)
         (responseOrOk plainCore plainProps (completion False) ''ScalarResponse'')
         (cancelled (completion False))] @ [ActiveBlock []]\<rparr>, effects = [], thrown = None\<rparr>"
    using onExecEnd_matches_by_execUUID [of "completion False" 1 "[?b, ?a]" "ActiveBlock []"
        "''sleep''" "''A''" 0 "ActiveBlock []" "''ls''" "''B''" plainCore plainProps
        "''ScalarResponse''"] echo
    by simp
  have second: "onExecEnd BlockModel_spec plainCore plainProps (completion False) ''B''
      ''ScalarResponse'' \<lparr>blocks = [?a, ?b]\<rparr> =
     \<lparr>next_state = \<lparr>blocks = [?a, ?b][1 := FinishedBlock ([?a, ?b] ! 1)
         (responseOrOk plainCore plainProps (completion False) ''ScalarResponse'')
         (cancelled (completion False))] @ [ActiveBlock []]\<rparr>, effects = [], thrown = None\<rparr>"
    using onExecEnd_matches_by_execUUID [of "completion False" 0 "[?a, ?b]" "ActiveBlock []"
        "''sleep''" "''A''" 1 "ActiveBlock []" "''ls''" "''B''" plainCore plainProps
        "''ScalarResponse''"] echo
    by simp
  show ?thesis
    unfolding first second r c by simp
qed

text \<open>
  Claim C4. An echoing completion event that is not cancelled and whose execution
  identifier matches no Processing block leaves the block sequence as it is and reports
  a diagnostic; no exception leaves the handler. This holds whatever the constructors of
  the block model do, since none is called.
\<close>

theorem onExecEnd_unmatched_is_inert:
  assumes "echo ev \<noteq> Some False" and "\<not> cancelled ev"
    and "\<forall>b \<in> set (blocks s). \<not> (isProcessing b \<and> execUUID b = Some u)"
  shows "onExecEnd bm core props ev u responseType s =
     \<lparr>next_state = s,
      effects = [ConsoleError
        ''invalid state: got a command completion event, but never got command start event''],
      thrown = None\<rparr>"
  using assms(1) updater_inert [OF assms(2,3)]
  by (simp add: onExecEnd_def setState_def)

theorem onExecEnd_unmatched_is_inert_witness:
  "onExecEnd BlockModel_spec plainCore plainProps (completion False) ''u9'' ''ScalarResponse''
     \<lparr>blocks = [ProcessingBlock (ActiveBlock []) ''ls'' ''u1'']\<rparr> =
   \<lparr>next_state = \<lparr>blocks = [ProcessingBlock (ActiveBlock []) ''ls'' ''u1'']\<rparr>,
    effects = [ConsoleError
      ''invalid state: got a command completion event, but never got command start event''],
    thrown = None\<rparr>"
  using onExecEnd_unmatched_is_inert [of "completion False"
      "\<lparr>blocks = [ProcessingBlock (ActiveBlock []) ''ls'' ''u1'']\<rparr>" "''u9''"
      BlockModel_spec plainCore plainProps "''ScalarResponse''"]
  by (simp add: completion_def)

text \<open>
  Claim C5. An echoing completion event that is cancelled and whose execution identifier
  matches no Processing block replaces the last block of the (non-empty) sequence with
  \<^verbatim>\<open>Cancelled(lastBlock)\<close>, keeps every earlier block, and appends a fresh Active block.
\<close>

theorem onExecEnd_bare_cancellation:
  assumes "echo ev \<noteq> Some False" and "cancelled ev" and "bs \<noteq> []"
    and "\<forall>b \<in> set bs. \<not> (isProcessing b \<and> execUUID b = Some u)"
  shows "onExecEnd BlockModel_spec core props ev u responseType \<lparr>blocks = bs\<rparr> =
     \<lparr>next_state = \<lparr>blocks = butlast bs @ [CancelledBlock (last bs), ActiveBlock []]\<rparr>,
      effects = [], thrown = None\<rparr>"
  using assms(1)
    updater_bare_cancel [of ev "\<lparr>blocks = bs\<rparr>" u BlockModel_spec core props responseType]
    assms(2,4) cancelledBlocks_spec [OF assms(3)]
  by (simp add: onExecEnd_def setState_def)

theorem onExecEnd_bare_cancellation_witness:
  "onExecEnd BlockModel_spec plainCore plainProps (completion True) ''u9'' ''ScalarResponse''
     \<lparr>blocks = [CancelledBlock (ActiveBlock []), ActiveBlock ''ki'']\<rparr> =
   \<lparr>next_state =
      \<lparr>blocks = [CancelledBlock (ActiveBlock []), CancelledBlock (ActiveBlock ''ki''),
                 ActiveBlock []]\<rparr>,
    effects = [], thrown = None\<rparr>"
  using onExecEnd_bare_cancellation [of "completion True"
      "[CancelledBlock (ActiveBlock []), ActiveBlock ''ki'']" "''u9''"
      plainCore plainProps "''ScalarResponse''"]
  by (simp add: completion_def)

text \<open>
  The branch that found the block never lets an exception out: a raising constructor is
  caught and reported, and the state is kept. The cancellation branch has no handler: an
  exception of \<^verbatim>\<open>Cancelled\<close> leaves the updater, unreported.
\<close>

lemma onExecEnd_found_caught:
  assumes "findIndex (\<lambda>b. isProcessing b \<and> execUUID b = Some u) (blocks s) = int j"
  shows "thrown (onExecEnd bm core props ev u responseType s) = None \<and>
         (next_state (onExecEnd bm core props ev u responseType s) = s \<or>
          effects (onExecEnd bm core props ev u responseType s) = [])"
  using updater_try_catch [OF assms, of bm core props ev responseType]
  by (simp add: onExecEnd_def unchanged_def setState_def split: sum.splits)

lemma onExecEnd_cancelled_escapes:
  assumes "echo ev \<noteq> Some False" and "cancelled ev"
    and "\<forall>b \<in> set (blocks s). \<not> (isProcessing b \<and> execUUID b = Some u)"
    and "mkCancelled bm (at (blocks s) (int (length (blocks s)) - 1)) = Inl e"
  shows "onExecEnd bm core props ev u responseType s =
           \<lparr>next_state = s, effects = [], thrown = Some e\<rparr>"
  using assms(1,4) updater_bare_cancel [OF assms(2,3), of bm core props responseType]
  by (simp add: onExecEnd_def setState_def cancelledBlocks_def)

text \<open>
  Claim C6. Every exception raised while \<^verbatim>\<open>onExecEnd\<close> constructs the replacement
  sequence, in any of its branches, the bare-cancellation branch included, is caught and
  reported, the sequence is left unchanged, and the exception does not leave the handler.

  The code has a \<^verbatim>\<open>try/catch\<close> in the branch that found the block only. With a
  \<^verbatim>\<open>Finished\<close> that raises, the completion of a Processing block is caught and reported.
  With a \<^verbatim>\<open>Cancelled\<close> that raises, a bare cancellation lets the exception out of the
  updater, with no report. The same happens on the specified block model when the
  sequence is empty, where \<^verbatim>\<open>Cancelled\<close> is applied to \<^verbatim>\<open>undefined\<close>.
\<close>

theorem onExecEnd_cancellation_exception_escapes:
  "onExecEnd failingFinished plainCore plainProps (completion False) ''u1'' ''ScalarResponse''
     \<lparr>blocks = [ProcessingBlock (ActiveBlock []) ''ls'' ''u1'']\<rparr> =
   \<lparr>next_state = \<lparr>blocks = [ProcessingBlock (ActiveBlock []) ''ls'' ''u1'']\<rparr>,
    effects = [ConsoleError ''error updating state''], thrown = None\<rparr>
   \<and> onExecEnd failingCancelled plainCore plainProps (completion True) ''u1'' ''ScalarResponse''
     \<lparr>blocks = [ActiveBlock []]\<rparr> =
   \<lparr>next_state = \<lparr>blocks = [ActiveBlock []]\<rparr>, effects = [],
    thrown = Some (Error ''Cancelled failed'')\<rparr>
   \<and> onExecEnd BlockModel_spec plainCore plainProps (completion True) ''u1'' ''ScalarResponse''
     \<lparr>blocks = []\<rparr> =
   \<lparr>next_state = \<lparr>blocks = []\<rparr>, effects = [], thrown = Some TypeError\<rparr>"
  by (simp add: onExecEnd_def setState_def onExecEnd_updater_def cancelledBlocks_def
        finishedBlocks_def failingCancelled_def failingFinished_def spec_ops samples at_def)

text \<open>
  Claim C9. When \<^verbatim>\<open>onExecEnd\<close> finds the matching Processing block, the Finished block it
  puts in its place stores the response when the response type tag is
  \<^verbatim>\<open>'ScalarResponse'\<close> and the response is to be shown in the terminal (the watch pane is
  disabled, or the response is not watchable, or the evaluator's or the caller's options
  force the terminal view); in every other case it stores the boolean \<^verbatim>\<open>true\<close>.
\<close>

theorem onExecEnd_response_or_ok:
  assumes "echo ev \<noteq> Some False" and "j < length bs"
    and "isProcessing (bs ! j)" and "execUUID (bs ! j) = Some u"
    and "\<forall>k<j. \<not> (isProcessing (bs ! k) \<and> execUUID (bs ! k) = Some u)"
  shows "blocks (next_state
           (onExecEnd BlockModel_spec core props ev u responseType \<lparr>blocks = bs\<rparr>)) ! j =
         FinishedBlock (bs ! j)
           (if responseType = ''ScalarResponse'' \<and>
               (\<not> enableWatchPane props \<or> \<not> isWatchable core (response ev) \<or>
                evaluatorAlwaysViewIn ev = Some ''Terminal'' \<or>
                execAlwaysViewIn ev = Some ''Terminal'')
            then response ev else BooleanResponse True)
           (cancelled ev)"
proof -
  have "responseOrOk core props ev responseType =
        (if responseType = ''ScalarResponse'' \<and>
               (\<not> enableWatchPane props \<or> \<not> isWatchable core (response ev) \<or>
                evaluatorAlwaysViewIn ev = Some ''Terminal'' \<or>
                execAlwaysViewIn ev = Some ''Terminal'')
            then response ev else BooleanResponse True)"
    unfolding responseOrOk_def showInTerminal_def by metis
  then show ?thesis
    using assms(1,2) updater_found [OF assms(2-5), of core props ev responseType]
    by (simp add: onExecEnd_def setState_def nth_append)
qed

theorem onExecEnd_response_or_ok_witness:
  "blocks (next_state
     (onExecEnd BlockModel_spec watchCore watchProps (completion False) ''u1'' ''ScalarResponse''
        \<lparr>blocks = [ProcessingBlock (ActiveBlock []) ''ls'' ''u1'']\<rparr>)) ! 0 =
     FinishedBlock (ProcessingBlock (ActiveBlock []) ''ls'' ''u1'') (BooleanResponse True) False
   \<and> blocks (next_state
     (onExecEnd BlockModel_spec watchCore watchProps
        ((completion False)\<lparr>execAlwaysViewIn := Some ''Terminal''\<rparr>) ''u1'' ''ScalarResponse''
        \<lparr>blocks = [ProcessingBlock (ActiveBlock []) ''ls'' ''u1'']\<rparr>)) ! 0 =
     FinishedBlock (ProcessingBlock (ActiveBlock []) ''ls'' ''u1'') (ValueResponse ''ok'') False
   \<and> blocks (next_state
     (onExecEnd BlockModel_spec plainCore plainProps (completion False) ''u1'' ''Table''
        \<lparr>blocks = [ProcessingBlock (ActiveBlock []) ''ls'' ''u1'']\<rparr>)) ! 0 =
     FinishedBlock (ProcessingBlock (ActiveBlock []) ''ls'' ''u1'') (BooleanResponse True) False"
  using
    onExecEnd_response_or_ok [of "completion False" 0
      "[ProcessingBlock (ActiveBlock []) ''ls'' ''u1'']" "''u1''" watchCore watchProps
      "''ScalarResponse''"]
    onExecEnd_response_or_ok [of "(completion False)\<lparr>execAlwaysViewIn := Some ''Terminal''\<rparr>" 0
      "[ProcessingBlock (ActiveBlock []) ''ls'' ''u1'']" "''u1''" watchCore watchProps
      "''ScalarResponse''"]
    onExecEnd_response_or_ok [of "completion False" 0
      "[ProcessingBlock (ActiveBlock []) ''ls'' ''u1'']" "''u1''" plainCore plainProps
      "''Table''"]
  by (simp add: samples)

section \<open>Clearing the terminal\<close>

text \<open>
  Claim C7. In every state, \<^verbatim>\<open>clear()\<close> replaces the whole sequence with a single new
  Active block whose captured input is the in-progress input of the active block the
  terminal refers to (the empty text when it refers to none), calls the \<^verbatim>\<open>onClear\<close>
  callback when one was supplied, and raises nothing.
\<close>

theorem clear_keeps_input:
  "clear BlockModel_spec props activeBlock s =
     \<lparr>next_state = \<lparr>blocks = [ActiveBlock (case activeBlock of None \<Rightarrow> [] | Some v \<Rightarrow> v)]\<rparr>,
      effects = (if onClear props then [CallOnClear] else []),
      thrown = None\<rparr>"
  by (simp add: clear_def after_effects_def setState_def spec_ops split: option.splits)

text \<open>Typing \<^verbatim>\<open>foo\<close> into the active block, then clearing.\<close>

theorem clear_keeps_input_witness:
  "clear BlockModel_spec plainProps (Some ''foo'')
     \<lparr>blocks = [FinishedBlock (ProcessingBlock (ActiveBlock []) ''ls'' ''u1'')
                  (BooleanResponse True) False,
                ActiveBlock []]\<rparr> =
   \<lparr>next_state = \<lparr>blocks = [ActiveBlock ''foo'']\<rparr>, effects = [CallOnClear], thrown = None\<rparr>"
  using clear_keeps_input [of plainProps "Some ''foo''"
      "\<lparr>blocks = [FinishedBlock (ProcessingBlock (ActiveBlock []) ''ls'' ''u1'')
                  (BooleanResponse True) False,
                ActiveBlock []]\<rparr>"]
  by (simp add: plainProps_def)

section \<open>Silent events\<close>

text \<open>
  Claim C8. A start event and a completion event whose \<open>echo\<close> flag is \<open>false\<close> change
  nothing: the handler returns the state it was given, with no effect and no exception,
  whatever the block model does.
\<close>

theorem echo_false_is_noop:
  assumes "start_echo sev = Some False" and "echo cev = Some False"
  shows "onExecStart bm core props sev s = \<lparr>next_state = s, effects = [], thrown = None\<rparr> \<and>
         onExecEnd bm core props cev u responseType s =
           \<lparr>next_state = s, effects = [], thrown = None\<rparr>"
  using assms by (simp add: onExecStart_def onExecEnd_def unchanged_def)

theorem echo_false_is_noop_witness:
  "onExecStart BlockModel_spec plainCore plainProps ((start ''u1'' ''ls'')\<lparr>start_echo := Some False\<rparr>)
     \<lparr>blocks = [ActiveBlock []]\<rparr> =
     \<lparr>next_state = \<lparr>blocks = [ActiveBlock []]\<rparr>, effects = [], thrown = None\<rparr>
   \<and> onExecEnd BlockModel_spec plainCore plainProps ((completion True)\<lparr>echo := Some False\<rparr>)
       ''u1'' ''ScalarResponse'' \<lparr>blocks = [ActiveBlock []]\<rparr> =
     \<lparr>next_state = \<lparr>blocks = [ActiveBlock []]\<rparr>, effects = [], thrown = None\<rparr>"
  using echo_false_is_noop [of "(start ''u1'' ''ls'')\<lparr>start_echo := Some False\<rparr>"
      "(completion True)\<lparr>echo := Some False\<rparr>" BlockModel_spec plainCore plainProps
      "\<lparr>blocks = [ActiveBlock []]\<rparr>" "''u1''" "''ScalarResponse''"]
  by (simp add: samples)

section \<open>Start events\<close>

text \<open>
  Claim C10. For a non-empty sequence, an echoing start event replaces the last block,
  whatever its state, with \<^verbatim>\<open>Processing(lastBlock, command, execId)\<close>; the length is kept
  and the earlier blocks are untouched. A second echoing start event therefore replaces
  the Processing block of the first in place: the last block then carries the command
  text and the execution identifier of the second event.
\<close>

theorem onExecStart_replaces_last:
  assumes "start_echo ev \<noteq> Some False" and "start_echo ev' \<noteq> Some False" and "bs \<noteq> []"
  shows "next_state (onExecStart BlockModel_spec core props ev \<lparr>blocks = bs\<rparr>) =
           \<lparr>blocks = butlast bs @
              [ProcessingBlock (last bs) (start_command ev) (start_execUUID ev)]\<rparr>
       \<and> thrown (onExecStart BlockModel_spec core props ev \<lparr>blocks = bs\<rparr>) = None
       \<and> length (blocks (next_state
            (onExecStart BlockModel_spec core props ev \<lparr>blocks = bs\<rparr>))) = length bs
       \<and> next_state (onExecStart BlockModel_spec core props ev'
            (next_state (onExecStart BlockModel_spec core props ev \<lparr>blocks = bs\<rparr>))) =
           \<lparr>blocks = butlast bs @
              [ProcessingBlock
                 (ProcessingBlock (last bs) (start_command ev) (start_execUUID ev))
                 (start_command ev') (start_execUUID ev')]\<rparr>
       \<and> command (last (blocks (next_state (onExecStart BlockModel_spec core props ev'
            (next_state (onExecStart BlockModel_spec core props ev \<lparr>blocks = bs\<rparr>)))))) =
           Some (start_command ev')
       \<and> execUUID (last (blocks (next_state (onExecStart BlockModel_spec core props ev'
            (next_state (onExecStart BlockModel_spec core props ev \<lparr>blocks = bs\<rparr>)))))) =
           Some (start_execUUID ev')"
  using assms by (simp add: onExecStart_last)

theorem onExecStart_replaces_last_witness:
  "next_state (onExecStart BlockModel_spec plainCore plainProps (start ''u1'' ''sleep 9'')
      \<lparr>blocks = [CancelledBlock (ActiveBlock []), ActiveBlock []]\<rparr>) =
     \<lparr>blocks = [CancelledBlock (ActiveBlock []),
                ProcessingBlock (ActiveBlock []) ''sleep 9'' ''u1'']\<rparr>
   \<and> next_state (onExecStart BlockModel_spec plainCore plainProps (start ''u2'' ''ls'')
       (next_state (onExecStart BlockModel_spec plainCore plainProps (start ''u1'' ''sleep 9'')
          \<lparr>blocks = [CancelledBlock (ActiveBlock []), ActiveBlock []]\<rparr>))) =
     \<lparr>blocks = [CancelledBlock (ActiveBlock []),
                ProcessingBlock (ProcessingBlock (ActiveBlock []) ''sleep 9'' ''u1'')
                  ''ls'' ''u2'']\<rparr>
   \<and> execUUID (last (blocks (next_state
       (onExecStart BlockModel_spec plainCore plainProps (start ''u2'' ''ls'')
         (next_state (onExecStart BlockModel_spec plainCore plainProps (start ''u1'' ''sleep 9'')
            \<lparr>blocks = [CancelledBlock (ActiveBlock []), ActiveBlock []]\<rparr>)))))) = Some ''u2''"
proof -
  have e1: "start_echo (start ''u1'' ''sleep 9'') \<noteq> Some False"
    and e2: "start_echo (start ''u2'' ''ls'') \<noteq> Some False"
    by (simp_all add: start_def)
  have ne: "[CancelledBlock (ActiveBlock []), ActiveBlock []] \<noteq> []" by simp
  note run = onExecStart_replaces_last [OF e1 e2 ne, of plainCore plainProps]
  have one: "next_state (onExecStart BlockModel_spec plainCore plainProps
      (start ''u1'' ''sleep 9'') \<lparr>blocks = [CancelledBlock (ActiveBlock []), ActiveBlock []]\<rparr>) =
     \<lparr>blocks = [CancelledBlock (ActiveBlock []),
                ProcessingBlock (ActiveBlock []) ''sleep 9'' ''u1'']\<rparr>"
    unfolding run [THEN conjunct1] by (simp add: start_def)
  have two: "next_state (onExecStart BlockModel_spec plainCore plainProps
      (start ''u2'' ''ls'')
       (next_state (onExecStart BlockModel_spec plainCore plainProps (start ''u1'' ''sleep 9'')
          \<lparr>blocks = [CancelledBlock (ActiveBlock []), ActiveBlock []]\<rparr>))) =
     \<lparr>blocks = [CancelledBlock (ActiveBlock []),
                ProcessingBlock (ProcessingBlock (ActiveBlock []) ''sleep 9'' ''u1'')
                  ''ls'' ''u2'']\<rparr>"
    unfolding run [THEN conjunct2, THEN conjunct2, THEN conjunct2, THEN conjunct1]
    by (simp add: start_def)
  show ?thesis
    by (simp only: two) (simp add: one)
qed

section \<open>The invariant over event sequences\<close>

lemma invariantA_snoc:
  "invariantA \<lparr>blocks = bs @ [b]\<rparr> = (list_all settled bs \<and> (isActive b \<or> isProcessing b))"
  by (simp add: invariantA_def)

lemma invariantA_snoc2:
  "invariantA \<lparr>blocks = bs @ [c, b]\<rparr> =
     (list_all settled bs \<and> settled c \<and> (isActive b \<or> isProcessing b))"
  using invariantA_snoc [of "bs @ [c]" b] by simp

lemma invariantA_activeCount:
  assumes "invariantA s"
  shows "activeCount s = 1 \<and> isActive (last (blocks s)) \<or>
         activeCount s = 0 \<and> isProcessing (last (blocks s))"
proof -
  from assms obtain bs b where bs: "blocks s = bs @ [b]"
    by (cases "blocks s" rule: rev_cases) (auto simp: invariantA_def)
  with assms have "list_all settled bs" and last: "isActive b \<or> isProcessing b"
    by (simp_all add: invariantA_def)
  then have "filter isActive bs = []"
    by (simp add: settled_def list_all_iff filter_empty_conv)
  with bs last show ?thesis
    by (cases b) (simp_all add: activeCount_def)
qed

lemma onExecStart_invariantA:
  assumes "invariantA s"
  shows "thrown (onExecStart BlockModel_spec core props ev s) = None \<and>
         invariantA (next_state (onExecStart BlockModel_spec core props ev s))"
proof (cases "start_echo ev = Some False")
  case True
  with assms show ?thesis by (simp add: onExecStart_def unchanged_def)
next
  case False
  obtain bs where s: "s = \<lparr>blocks = bs\<rparr>" by (cases s) simp
  with assms have ne: "bs \<noteq> []" and rest: "list_all settled (butlast bs)"
    by (simp_all add: invariantA_def)
  show ?thesis
    unfolding s onExecStart_last [OF False ne] using rest by (simp add: invariantA_snoc)
qed

lemma clear_invariantA:
  "thrown (clear BlockModel_spec props activeBlock s) = None \<and>
   invariantA (next_state (clear BlockModel_spec props activeBlock s))"
  by (simp add: clear_def after_effects_def setState_def spec_ops invariantA_def)

lemma onExecEnd_invariantA:
  assumes "invariantA s"
  shows "thrown (onExecEnd BlockModel_spec core props ev u responseType s) = None \<and>
         invariantA (next_state (onExecEnd BlockModel_spec core props ev u responseType s))"
proof -
  let ?p = "\<lambda>b. isProcessing b \<and> execUUID b = Some u"
  from assms obtain bs b where bs: "blocks s = bs @ [b]"
    by (cases "blocks s" rule: rev_cases) (auto simp: invariantA_def)
  with assms have rest: "list_all settled bs" and lst: "isActive b \<or> isProcessing b"
    by (simp_all add: invariantA_def)
  have s: "s = \<lparr>blocks = bs @ [b]\<rparr>" using bs by simp
  have nop: "\<not> ?p x" if "x \<in> set bs" for x
    using rest that by (auto simp: settled_def list_all_iff)
  consider (silent) "echo ev = Some False"
    | (found) "echo ev \<noteq> Some False" "?p b"
    | (bare) "echo ev \<noteq> Some False" "\<not> ?p b" "cancelled ev"
    | (inert) "echo ev \<noteq> Some False" "\<not> ?p b" "\<not> cancelled ev"
    by blast
  then show ?thesis
  proof cases
    case silent
    with assms show ?thesis by (simp add: onExecEnd_def unchanged_def)
  next
    case found
    have "onExecEnd_updater BlockModel_spec core props ev u responseType \<lparr>blocks = bs @ [b]\<rparr> =
       (Inr (Some \<lparr>blocks = (bs @ [b])[length bs :=
               FinishedBlock ((bs @ [b]) ! length bs) (responseOrOk core props ev responseType)
                 (cancelled ev)] @ [ActiveBlock []]\<rparr>), [])"
      using found nop by (intro updater_found) (auto simp: nth_append)
    with s rest found(1) show ?thesis
      by (simp add: onExecEnd_def setState_def invariantA_snoc2 settled_def)
  next
    case bare
    have "onExecEnd_updater BlockModel_spec core props ev u responseType \<lparr>blocks = bs @ [b]\<rparr> =
       (Inr (Some \<lparr>blocks = bs @ [CancelledBlock b, ActiveBlock []]\<rparr>), [])"
      using updater_bare_cancel [of ev "\<lparr>blocks = bs @ [b]\<rparr>" u BlockModel_spec core props
          responseType]
        bare nop cancelledBlocks_spec [of "bs @ [b]"]
      by auto
    with s rest bare(1) show ?thesis
      by (simp add: onExecEnd_def setState_def invariantA_snoc2 settled_def)
  next
    case inert
    have "onExecEnd_updater BlockModel_spec core props ev u responseType s =
       (Inr None,
        [ConsoleError
          ''invalid state: got a command completion event, but never got command start event''])"
      using inert nop bs by (intro updater_inert) auto
    with assms inert(1) show ?thesis
      by (simp add: onExecEnd_def setState_def)
  qed
qed

lemma dispatch_invariantA:
  "invariantA s \<Longrightarrow>
     thrown (dispatch BlockModel_spec core props e s) = None \<and>
     invariantA (next_state (dispatch BlockModel_spec core props e s))"
  by (cases e) (simp_all add: onExecStart_invariantA onExecEnd_invariantA clear_invariantA)

lemma outcomes_invariantA:
  "invariantA s \<Longrightarrow> r \<in> set (outcomes BlockModel_spec core props s evs) \<Longrightarrow>
     thrown r = None \<and> invariantA (next_state r)"
proof (induction evs arbitrary: s)
  case Nil
  then show ?case by simp
next
  case (Cons e es)
  from Cons.prems(1) have step:
    "thrown (dispatch BlockModel_spec core props e s) = None \<and>
     invariantA (next_state (dispatch BlockModel_spec core props e s))"
    by (rule dispatch_invariantA)
  from Cons.prems(2) consider "r = dispatch BlockModel_spec core props e s"
    | "r \<in> set (outcomes BlockModel_spec core props
                   (next_state (dispatch BlockModel_spec core props e s)) es)"
    by auto
  then show ?case
  proof cases
    case 1
    with step show ?thesis by simp
  next
    case 2
    with step Cons.IH show ?thesis by blast
  qed
qed

text \<open>
  Claim C2. For every sequence of start, complete and clear events applied to a fresh
  terminal, after each handler has run to completion exactly one block is Active.

  As stated this fails after an echoing start event: the only Active block has become
  Processing, and no block is Active until the completion arrives. What the handlers
  keep is this: the terminal starts with exactly one Active block; after every handler
  no exception has left it, the sequence is not empty, every block before the last is
  Finished or Cancelled, and either exactly one block is Active and it is the last, or
  no block is Active and the last block is Processing.
\<close>

theorem single_active_or_processing_last:
  assumes "initialState BlockModel_spec = Inr s0"
    and "r \<in> set (outcomes BlockModel_spec core props s0 evs)"
  shows "activeCount s0 = 1 \<and>
         thrown r = None \<and> blocks (next_state r) \<noteq> [] \<and>
         list_all settled (butlast (blocks (next_state r))) \<and>
         (activeCount (next_state r) = 1 \<and> isActive (last (blocks (next_state r))) \<or>
          activeCount (next_state r) = 0 \<and> isProcessing (last (blocks (next_state r))))"
proof -
  from assms(1) have s0: "s0 = \<lparr>blocks = [ActiveBlock []]\<rparr>"
    by (auto simp: initialState_def spec_ops)
  then have "invariantA s0"
    by (simp add: invariantA_def)
  from outcomes_invariantA [OF this assms(2)]
  have "thrown r = None" and inv: "invariantA (next_state r)" by simp_all
  with invariantA_activeCount [OF inv] s0 show ?thesis
    by (simp add: invariantA_def activeCount_def)
qed

text \<open>A command is started and completes, then a second one is started: after the
  completion one block is Active, after the second start none is.\<close>

theorem single_active_or_processing_last_witness:
  "initialState BlockModel_spec = Inr \<lparr>blocks = [ActiveBlock []]\<rparr>
   \<and> outcomes BlockModel_spec plainCore plainProps \<lparr>blocks = [ActiveBlock []]\<rparr>
       [Start (start ''u1'' ''ls''), Complete (completion False) ''u1'' ''ScalarResponse'',
        Start (start ''u2'' ''pwd'')] =
     [\<lparr>next_state = \<lparr>blocks = [ProcessingBlock (ActiveBlock []) ''ls'' ''u1'']\<rparr>,
       effects = [], thrown = None\<rparr>,
      \<lparr>next_state = \<lparr>blocks = [FinishedBlock (ProcessingBlock (ActiveBlock []) ''ls'' ''u1'')
                                 (ValueResponse ''ok'') False,
                               ActiveBlock []]\<rparr>,
       effects = [], thrown = None\<rparr>,
      \<lparr>next_state = \<lparr>blocks = [FinishedBlock (ProcessingBlock (ActiveBlock []) ''ls'' ''u1'')
                                 (ValueResponse ''ok'') False,
                               ProcessingBlock (ActiveBlock []) ''pwd'' ''u2'']\<rparr>,
       effects = [], thrown = None\<rparr>]
   \<and> activeCount \<lparr>blocks = [FinishedBlock (ProcessingBlock (ActiveBlock []) ''ls'' ''u1'')
                              (ValueResponse ''ok'') False,
                            ActiveBlock []]\<rparr> = 1
   \<and> activeCount \<lparr>blocks = [FinishedBlock (ProcessingBlock (ActiveBlock []) ''ls'' ''u1'')
                              (ValueResponse ''ok'') False,
                            ProcessingBlock (ActiveBlock []) ''pwd'' ''u2'']\<rparr> = 0"
proof -
  let ?evs = "[Start (start ''u1'' ''ls''), Complete (completion False) ''u1'' ''ScalarResponse'',
        Start (start ''u2'' ''pwd'')]"
  let ?f = "FinishedBlock (ProcessingBlock (ActiveBlock []) ''ls'' ''u1'')
              (ValueResponse ''ok'') False"
  have init: "initialState BlockModel_spec = Inr \<lparr>blocks = [ActiveBlock []]\<rparr>"
    by (simp add: initialState_def spec_ops)
  have run: "outcomes BlockModel_spec plainCore plainProps \<lparr>blocks = [ActiveBlock []]\<rparr> ?evs =
     [\<lparr>next_state = \<lparr>blocks = [ProcessingBlock (ActiveBlock []) ''ls'' ''u1'']\<rparr>,
       effects = [], thrown = None\<rparr>,
      \<lparr>next_state = \<lparr>blocks = [?f, ActiveBlock []]\<rparr>, effects = [], thrown = None\<rparr>,
      \<lparr>next_state = \<lparr>blocks = [?f, ProcessingBlock (ActiveBlock []) ''pwd'' ''u2'']\<rparr>,
       effects = [], thrown = None\<rparr>]"
    by (simp add: onExecStart_def onExecEnd_def onExecEnd_updater_def finishedBlocks_def
          responseOrOk_def showInTerminal_def after_effects_def setState_def spec_ops samples
          at_def slice_def sliceFrom_def relIndex_def)
  have mem2: "\<lparr>next_state = \<lparr>blocks = [?f, ActiveBlock []]\<rparr>, effects = [], thrown = None\<rparr>
      \<in> set (outcomes BlockModel_spec plainCore plainProps \<lparr>blocks = [ActiveBlock []]\<rparr> ?evs)"
    unfolding run by simp
  have mem3: "\<lparr>next_state = \<lparr>blocks = [?f, ProcessingBlock (ActiveBlock []) ''pwd'' ''u2'']\<rparr>,
        effects = [], thrown = None\<rparr>
      \<in> set (outcomes BlockModel_spec plainCore plainProps \<lparr>blocks = [ActiveBlock []]\<rparr> ?evs)"
    unfolding run by simp
  from single_active_or_processing_last [OF init mem2]
  have a: "activeCount \<lparr>blocks = [?f, ActiveBlock []]\<rparr> = 1" by simp
  from single_active_or_processing_last [OF init mem3]
  have b: "activeCount \<lparr>blocks = [?f, ProcessingBlock (ActiveBlock []) ''pwd'' ''u2'']\<rparr> = 0"
    by simp
  from init run a b show ?thesis by blast
qed

text \<open>After the first echoing start event of a fresh terminal no block is Active.\<close>

theorem start_leaves_no_active_block:
  "initialState BlockModel_spec = Inr \<lparr>blocks = [ActiveBlock []]\<rparr> \<and>
   outcomes BlockModel_spec plainCore plainProps \<lparr>blocks = [ActiveBlock []]\<rparr>
     [Start (start ''u1'' ''ls'')] =
     [\<lparr>next_state = \<lparr>blocks = [ProcessingBlock (ActiveBlock []) ''ls'' ''u1'']\<rparr>,
       effects = [], thrown = None\<rparr>] \<and>
   activeCount \<lparr>blocks = [ProcessingBlock (ActiveBlock []) ''ls'' ''u1'']\<rparr> = 0"
  by (simp add: initialState_def onExecStart_def after_effects_def setState_def spec_ops samples
        at_def slice_def relIndex_def activeCount_def)

end
